theory Spec2Isabelle
  imports Main "HOL-Library.Sublist" "HOL-Library.Multiset"
begin

section \<open>Cittadinanza Check: document classifier and quality score\<close>

text \<open>
  A shallow embedding of the decision logic of \<^verbatim>\<open>citizenbship-docs/src/App.tsx\<close>:
  the helpers \<^verbatim>\<open>isImage\<close>, \<^verbatim>\<open>isPDF\<close>, the classifier \<^verbatim>\<open>guessDocType\<close> and the
  scorer \<^verbatim>\<open>scoreQuality\<close>.

  Conventions of the embedding.
  \<^item> A JavaScript string is a list of code units. File names are modelled as \<^typ>\<open>string\<close>,
    whose characters are read as the code units U+0000 to U+00FF (Basic Latin and
    Latin-1); this range holds every character of the source's keywords, among them
    U+00F3 (o with acute accent) and U+00E7 (c with cedilla), and of its extension
    patterns.
  \<^item> A JavaScript number that only ever holds small integers is an \<^typ>\<open>int\<close>.
  \<^item> Names follow the source. The fields \<^verbatim>\<open>id\<close> and \<^verbatim>\<open>file\<close> of an uploaded document
    are written \<open>doc_id\<close> and \<open>doc_file\<close>, the fields \<^verbatim>\<open>name\<close> and \<^verbatim>\<open>size\<close> of a
    file \<open>file_name\<close> and \<open>file_size\<close>, and the string method \<^verbatim>\<open>includes\<close> is
    \<open>includesStr\<close>.
  \<^item> The four label texts and the five flag texts are fixed literals of the source; each
    is a constructor of a datatype, with the literal written beside it (accents dropped,
    the dash of the source written \<^verbatim>\<open>--\<close>).
\<close>

subsection \<open>Types (lines 4 to 43)\<close>

datatype DocType =
    certidao_nascimento
  | certidao_casamento
  | certidao_obito
  | certidao_naturalizacao
  | certidao_negativa_naturalizacao
  | passaporte
  | rg_cnh
  | comprovante_endereco
  | apostila_haya
  | traducao_juramentada

text \<open>The union \<^verbatim>\<open>DocType | "unknown"\<close> of the field \<^verbatim>\<open>inferredType\<close>.\<close>

datatype inferred = known DocType | unknown

text \<open>The two fields of a browser \<^verbatim>\<open>File\<close> that the repository reads.\<close>

record File =
  file_name :: string
  file_size :: nat

record UploadedDoc =
  doc_id :: string
  doc_file :: File
  inferredType :: inferred

text \<open>An optional field (\<^verbatim>\<open>phone?: string\<close>) is \<^const>\<open>None\<close> when it is undefined.\<close>

record Applicant =
  fullName :: string
  email :: string
  phone :: "string option"
  country :: string
  city :: string

datatype Relationship = bisavo | trisavo | tataravo | outro | avo

record LineageInfo =
  italianAncestorName :: string
  italianAncestorBirthYear :: "string option"
  italianAncestorBirthPlace :: "string option"
  relationshipToYou :: Relationship
  anyFemaleBefore1948 :: bool
  anyNaturalizationInLine :: bool
  naturalizedBeforeChildBirth :: bool

text \<open>The string literal that each member of the union \<^verbatim>\<open>relationshipToYou\<close> is.\<close>

fun relationshipText :: "Relationship \<Rightarrow> string" where
  "relationshipText bisavo = ''bisav'' @ [CHR 0xF4] @ ''/av'' @ [CHR 0xF3]"
| "relationshipText trisavo = ''trisav'' @ [CHR 0xF4] @ ''/av'' @ [CHR 0xF3]"
| "relationshipText tataravo = ''tatarav'' @ [CHR 0xF4] @ ''/av'' @ [CHR 0xF3]"
| "relationshipText outro = ''outro''"
| "relationshipText avo = ''av'' @ [CHR 0xF4] @ ''/av'' @ [CHR 0xF3]"

text \<open>JavaScript truthiness of a string, and of an optional string.\<close>

definition truthy :: "string \<Rightarrow> bool" where
  "truthy s = (s \<noteq> [])"

definition truthyOpt :: "string option \<Rightarrow> bool" where
  "truthyOpt v = (case v of None \<Rightarrow> False | Some s \<Rightarrow> truthy s)"

subsection \<open>Regular expressions of the helpers (lines 46 and 47)\<close>

text \<open>
  The fragment of the pattern language that the two literals use: the empty pattern, a
  character, sequence, alternation, an optional part and the end anchor \<^verbatim>\<open>$\<close>.
\<close>

datatype rx = Eps | Chr char | Seq rx rx | Alt rx rx | Opt rx | Eol

text \<open>
  With the flag \<^verbatim>\<open>i\<close> and without \<^verbatim>\<open>u\<close>, two code units match when their
  canonical forms agree. The canonical form is the upper case, except that a code unit
  outside ASCII is never mapped into ASCII. The patterns hold ASCII characters only, so
  the ASCII part of the mapping decides every comparison; other code units are left in
  place here.
\<close>

definition canonicalize :: "char \<Rightarrow> char" where
  "canonicalize c =
     (let n = (of_char c :: nat)
      in if 97 \<le> n \<and> n \<le> 122 then char_of (n - 32) else c)"

text \<open>
  The matcher in continuation style: \<open>matches r s k\<close> holds when \<open>r\<close> matches a prefix of
  \<open>s\<close> and the continuation \<open>k\<close> accepts the rest.
\<close>

fun matches :: "rx \<Rightarrow> string \<Rightarrow> (string \<Rightarrow> bool) \<Rightarrow> bool" where
  "matches Eps s k = k s"
| "matches (Chr c) s k =
     (case s of [] \<Rightarrow> False | x # xs \<Rightarrow> canonicalize x = canonicalize c \<and> k xs)"
| "matches (Seq a b) s k = matches a s (\<lambda>t. matches b t k)"
| "matches (Alt a b) s k = (matches a s k \<or> matches b s k)"
| "matches (Opt a) s k = (matches a s k \<or> k s)"
| "matches Eol s k = (s = [] \<and> k s)"

text \<open>\<^verbatim>\<open>RegExp.prototype.test\<close>: a match may start at any index, the end included.\<close>

fun regexTest :: "rx \<Rightarrow> string \<Rightarrow> bool" where
  "regexTest r [] = matches r [] (\<lambda>t. True)"
| "regexTest r (c # cs) = (matches r (c # cs) (\<lambda>t. True) \<or> regexTest r cs)"

text \<open>A run of pattern characters.\<close>

fun lit :: "string \<Rightarrow> rx" where
  "lit [] = Eps"
| "lit (c # cs) = Seq (Chr c) (lit cs)"

text \<open>\<^verbatim>\<open>/\.(png|jpe?g|webp|gif)$/i\<close>\<close>

definition imageRx :: rx where
  "imageRx =
     Seq (Chr CHR ''.'')
       (Seq (Alt (lit ''png'')
            (Alt (Seq (lit ''jp'') (Seq (Opt (Chr CHR ''e'')) (Chr CHR ''g'')))
            (Alt (lit ''webp'') (lit ''gif''))))
          Eol)"

text \<open>\<^verbatim>\<open>/\.(pdf)$/i\<close>\<close>

definition pdfRx :: rx where
  "pdfRx = Seq (Chr CHR ''.'') (Seq (lit ''pdf'') Eol)"

definition isImage :: "string \<Rightarrow> bool" where
  "isImage name = regexTest imageRx name"

definition isPDF :: "string \<Rightarrow> bool" where
  "isPDF name = regexTest pdfRx name"

subsection \<open>The classifier (lines 50 to 67)\<close>

text \<open>
  \<^verbatim>\<open>String.prototype.toLowerCase\<close> on the code units U+0000 to U+00FF: the capital
  letters A to Z, and U+00C0 to U+00DE without the multiplication sign U+00D7, move up by
  32; every other code unit of the range stays.
\<close>

definition toLowerChar :: "char \<Rightarrow> char" where
  "toLowerChar c =
     (let n = (of_char c :: nat)
      in if (65 \<le> n \<and> n \<le> 90) \<or> (192 \<le> n \<and> n \<le> 222 \<and> n \<noteq> 215)
         then char_of (n + 32) else c)"

definition toLowerCase :: "string \<Rightarrow> string" where
  "toLowerCase s = map toLowerChar s"

text \<open>\<^verbatim>\<open>String.prototype.includes\<close>: the key occurs at some index of the string.\<close>

fun includesStr :: "string \<Rightarrow> string \<Rightarrow> bool" where
  "includesStr [] key = (key = [])"
| "includesStr (c # cs) key = (prefix key (c # cs) \<or> includesStr cs key)"

definition guessDocType :: "string \<Rightarrow> inferred" where
  "guessDocType name =
     (let n = toLowerCase name in
      if includesStr n ''nascimento'' then known certidao_nascimento
      else if includesStr n ''casamento'' then known certidao_casamento
      else if includesStr n (CHR 0xF3 # ''bito'') \<or> includesStr n ''obito'' then known certidao_obito
      else if includesStr n ''naturaliza'' then known certidao_naturalizacao
      else if includesStr n ''negativa'' \<and> includesStr n ''naturaliza''
        then known certidao_negativa_naturalizacao
      else if includesStr n ''passaporte'' then known passaporte
      else if includesStr n ''rg'' \<or> includesStr n ''cnh'' \<or> includesStr n ''identidade''
        then known rg_cnh
      else if includesStr n ''endereco'' \<or> includesStr n (''endere'' @ [CHR 0xE7] @ ''o'')
        then known comprovante_endereco
      else if includesStr n ''apostila'' \<or> includesStr n ''haia'' \<or> includesStr n ''haya''
        then known apostila_haya
      else if includesStr n ''tradu'' then known traducao_juramentada
      else unknown)"

subsection \<open>The scorer (lines 70 to 142)\<close>

text \<open>
  The label literals:
  \<^item> \<open>Excelente\<close>: \<^verbatim>\<open>Excelente -- Alta probabilidade de viabilidade\<close>
  \<^item> \<open>Boa\<close>: \<^verbatim>\<open>Boa -- Viavel com possiveis ajustes\<close>
  \<^item> \<open>Regular\<close>: \<^verbatim>\<open>Regular -- Documentos/linhagem incompletos\<close>
  \<^item> \<open>Baixa\<close>: \<^verbatim>\<open>Baixa -- Falhas criticas a resolver\<close>
\<close>

datatype Label = Excelente | Boa | Regular | Baixa

text \<open>
  The flag literals:
  \<^item> \<open>FaltaNascimento\<close>: \<^verbatim>\<open>Falta certidao de nascimento (linhagem)\<close>
  \<^item> \<open>FaltaCasamento\<close>: \<^verbatim>\<open>Falta certidao de casamento em alguma geracao\<close>
  \<^item> \<open>FaltaNaturalizacao\<close>: \<^verbatim>\<open>Falta prova de (nao) naturalizacao do Avo Italiano\<close>
  \<^item> \<open>NaturalizacaoImpeditiva\<close>:
    \<^verbatim>\<open>Naturalizacao antes do nascimento do descendente -- impeditivo\<close>
  \<^item> \<open>LinhaMaterna1948\<close>: \<^verbatim>\<open>Linha materna pre-1948 -- via judicial\<close>
\<close>

datatype Flag =
    FaltaNascimento
  | FaltaCasamento
  | FaltaNaturalizacao
  | NaturalizacaoImpeditiva
  | LinhaMaterna1948

record Quality =
  score :: int
  label :: Label
  flags :: "Flag list"

text \<open>Line 89: the set of the inferred types of the documents.\<close>

definition types :: "UploadedDoc list \<Rightarrow> inferred set" where
  "types docs = set (map inferredType docs)"

text \<open>Lines 107 to 109: every document is a PDF or an image by its file name.\<close>

definition pdfOrImg :: "UploadedDoc list \<Rightarrow> bool" where
  "pdfOrImg docs = list_all (\<lambda>d. isPDF (file_name (doc_file d)) \<or> isImage (file_name (doc_file d))) docs"

text \<open>Lines 75 to 104: the accumulator before the file format step.\<close>

definition scoreBeforeFormat :: "LineageInfo \<Rightarrow> UploadedDoc list \<Rightarrow> Applicant \<Rightarrow> int" where
  "scoreBeforeFormat lineage docs applicant =
     (let s = 0;
          s = (if truthy (fullName applicant) then s + 5 else s);
          s = (if truthy (email applicant) then s + 5 else s);
          s = (if truthy (country applicant) then s + 3 else s);
          s = (if truthy (city applicant) then s + 3 else s);
          s = (if truthy (italianAncestorName lineage) then s + 10 else s);
          s = (if truthyOpt (italianAncestorBirthYear lineage) then s + 6 else s);
          s = (if truthy (relationshipText (relationshipToYou lineage)) then s + 6 else s);
          ts = types docs;
          s = (if known certidao_nascimento \<in> ts then s + 10 else s);
          s = (if known certidao_casamento \<in> ts then s + 8 else s);
          s = (if known certidao_obito \<in> ts then s + 6 else s);
          s = (if known certidao_negativa_naturalizacao \<in> ts \<or> known certidao_naturalizacao \<in> ts
               then s + 12 else s);
          s = (if known apostila_haya \<in> ts then s + 8 else s);
          s = (if known traducao_juramentada \<in> ts then s + 6 else s);
          s = (if anyNaturalizationInLine lineage then s - 8 else s);
          s = (if naturalizedBeforeChildBirth lineage then s - 25 else s);
          s = (if anyFemaleBefore1948 lineage then s - 8 else s)
      in s)"

text \<open>Line 110: the accumulator before the clamp.\<close>

definition scoreSum :: "LineageInfo \<Rightarrow> UploadedDoc list \<Rightarrow> Applicant \<Rightarrow> int" where
  "scoreSum lineage docs applicant =
     scoreBeforeFormat lineage docs applicant + (if pdfOrImg docs then 6 else 0)"

text \<open>Lines 116 to 123.\<close>

definition labelOf :: "int \<Rightarrow> Label" where
  "labelOf s =
     (if s \<ge> 80 then Excelente
      else if s \<ge> 60 then Boa
      else if s \<ge> 40 then Regular
      else Baixa)"

text \<open>Lines 126 to 139: each test that holds pushes its flag.\<close>

definition keyFlags :: "LineageInfo \<Rightarrow> UploadedDoc list \<Rightarrow> Flag list" where
  "keyFlags lineage docs =
     (let ts = types docs;
          fs = [];
          fs = (if known certidao_nascimento \<notin> ts then fs @ [FaltaNascimento] else fs);
          fs = (if known certidao_casamento \<notin> ts then fs @ [FaltaCasamento] else fs);
          fs = (if known certidao_negativa_naturalizacao \<notin> ts \<and> known certidao_naturalizacao \<notin> ts
                then fs @ [FaltaNaturalizacao] else fs);
          fs = (if naturalizedBeforeChildBirth lineage then fs @ [NaturalizacaoImpeditiva] else fs);
          fs = (if anyFemaleBefore1948 lineage then fs @ [LinhaMaterna1948] else fs)
      in fs)"

definition scoreQuality :: "LineageInfo \<Rightarrow> UploadedDoc list \<Rightarrow> Applicant \<Rightarrow> Quality" where
  "scoreQuality lineage docs applicant =
     (let s = max 0 (min 100 (scoreSum lineage docs applicant))
      in \<lparr>score = s, label = labelOf s, flags = keyFlags lineage docs\<rparr>)"

text \<open>Lines 176 to 180: the entry built for a picked file, with the fresh id as an argument.\<close>

definition upload :: "string \<Rightarrow> File \<Rightarrow> UploadedDoc" where
  "upload i f = \<lparr>doc_id = i, doc_file = f, inferredType = guessDocType (file_name f)\<rparr>"

subsection \<open>The four groups of contributions\<close>

text \<open>
  The source gathers the steps of lines 78 to 104 under four comments (base info
  completeness, lineage essentials, document presence boosts, risk adjustments). The
  amount of each group is named here, for the statements below; the three risk
  adjustments are the amounts taken away.
\<close>

definition applicantPoints :: "Applicant \<Rightarrow> int" where
  "applicantPoints applicant =
     (if truthy (fullName applicant) then 5 else 0)
     + (if truthy (email applicant) then 5 else 0)
     + (if truthy (country applicant) then 3 else 0)
     + (if truthy (city applicant) then 3 else 0)"

definition lineagePoints :: "LineageInfo \<Rightarrow> int" where
  "lineagePoints lineage =
     (if truthy (italianAncestorName lineage) then 10 else 0)
     + (if truthyOpt (italianAncestorBirthYear lineage) then 6 else 0)
     + (if truthy (relationshipText (relationshipToYou lineage)) then 6 else 0)"

definition documentPoints :: "inferred set \<Rightarrow> int" where
  "documentPoints ts =
     (if known certidao_nascimento \<in> ts then 10 else 0)
     + (if known certidao_casamento \<in> ts then 8 else 0)
     + (if known certidao_obito \<in> ts then 6 else 0)
     + (if known certidao_negativa_naturalizacao \<in> ts \<or> known certidao_naturalizacao \<in> ts
        then 12 else 0)
     + (if known apostila_haya \<in> ts then 8 else 0)
     + (if known traducao_juramentada \<in> ts then 6 else 0)"

definition riskPoints :: "LineageInfo \<Rightarrow> int" where
  "riskPoints lineage =
     (if anyNaturalizationInLine lineage then 8 else 0)
     + (if naturalizedBeforeChildBirth lineage then 25 else 0)
     + (if anyFemaleBefore1948 lineage then 8 else 0)"

subsection \<open>The specification's wording of the file format check\<close>

text \<open>
  The specification lists the recognised extensions and asks that a file name end in one
  of them, whatever the case of its letters.
\<close>

definition spec_extensions :: "string list" where
  "spec_extensions = [''.pdf'', ''.png'', ''.jpg'', ''.jpeg'', ''.webp'', ''.gif'']"

definition spec_recognizedExtension :: "string \<Rightarrow> bool" where
  "spec_recognizedExtension name =
     list_ex (\<lambda>ext. suffix ext (toLowerCase name)) spec_extensions"

text \<open>A document of one of the two naturalization categories.\<close>

definition isNaturalizationDoc :: "UploadedDoc \<Rightarrow> bool" where
  "isNaturalizationDoc d =
     (inferredType d = known certidao_negativa_naturalizacao
      \<or> inferredType d = known certidao_naturalizacao)"

subsection \<open>Sample inputs\<close>

definition applicantEmpty :: Applicant where
  "applicantEmpty = \<lparr>fullName = [], email = [], phone = Some [], country = [], city = []\<rparr>"

definition applicantFull :: Applicant where
  "applicantFull =
     \<lparr>fullName = ''Pedro Rossi'', email = ''pedro@example.com'', phone = None,
      country = ''Brasil'', city = ''Campinas''\<rparr>"

text \<open>The initial lineage of the form (lines 154 to 162).\<close>

definition lineageDefault :: LineageInfo where
  "lineageDefault =
     \<lparr>italianAncestorName = [], italianAncestorBirthYear = Some [],
      italianAncestorBirthPlace = Some [], relationshipToYou = bisavo,
      anyFemaleBefore1948 = False, anyNaturalizationInLine = False,
      naturalizedBeforeChildBirth = False\<rparr>"

definition lineageFull :: LineageInfo where
  "lineageFull =
     \<lparr>italianAncestorName = ''Giuseppe Rossi'', italianAncestorBirthYear = Some ''1880'',
      italianAncestorBirthPlace = Some ''Verona'', relationshipToYou = bisavo,
      anyFemaleBefore1948 = False, anyNaturalizationInLine = False,
      naturalizedBeforeChildBirth = False\<rparr>"

definition docNascimento :: UploadedDoc where
  "docNascimento = upload ''k3x9a1'' \<lparr>file_name = ''nascimento_pedro.pdf'', file_size = 48213\<rparr>"

definition docNascimentoDocx :: UploadedDoc where
  "docNascimentoDocx = upload ''p0q2m7'' \<lparr>file_name = ''nascimento_pedro.docx'', file_size = 20480\<rparr>"

definition docCasamento :: UploadedDoc where
  "docCasamento = upload ''b7c1d2'' \<lparr>file_name = ''Casamento_avos.PDF'', file_size = 51200\<rparr>"

definition docObito :: UploadedDoc where
  "docObito = upload ''z8y4w3'' \<lparr>file_name = ''obito_giuseppe.jpg'', file_size = 90112\<rparr>"

definition docNaturalizacao :: UploadedDoc where
  "docNaturalizacao = upload ''n5n5n5'' \<lparr>file_name = ''naturalizacao.png'', file_size = 7000\<rparr>"

definition docNegativa :: UploadedDoc where
  "docNegativa =
     \<lparr>doc_id = ''q1w2e3'', doc_file = \<lparr>file_name = ''cnn.jpeg'', file_size = 65000\<rparr>,
      inferredType = known certidao_negativa_naturalizacao\<rparr>"

definition docApostila :: UploadedDoc where
  "docApostila = upload ''a0a0a0'' \<lparr>file_name = ''apostila.webp'', file_size = 12000\<rparr>"

definition docTraducao :: UploadedDoc where
  "docTraducao = upload ''t9t9t9'' \<lparr>file_name = ''traducao.gif'', file_size = 3000\<rparr>"

definition docsAll :: "UploadedDoc list" where
  "docsAll =
     [docNascimento, docCasamento, docObito, docNaturalizacao, docNegativa, docApostila,
      docTraducao]"

definition lineageAllRisks :: LineageInfo where
  "lineageAllRisks =
     lineageDefault\<lparr>anyFemaleBefore1948 := True, anyNaturalizationInLine := True,
       naturalizedBeforeChildBirth := True\<rparr>"

definition lineageBlocked :: LineageInfo where
  "lineageBlocked = lineageDefault\<lparr>naturalizedBeforeChildBirth := True\<rparr>"

text \<open>
  Inputs whose sums are 80, 60, 40 and 39, one for each step of the label ladder.
\<close>

definition lineage80 :: LineageInfo where
  "lineage80 = lineageFull\<lparr>anyNaturalizationInLine := True\<rparr>"

definition lineage60 :: LineageInfo where
  "lineage60 = lineageFull\<lparr>naturalizedBeforeChildBirth := True\<rparr>"

definition lineage40 :: LineageInfo where
  "lineage40 =
     lineageFull\<lparr>italianAncestorName := [], anyFemaleBefore1948 := True,
       anyNaturalizationInLine := True, naturalizedBeforeChildBirth := True\<rparr>"

definition lineage39 :: LineageInfo where
  "lineage39 =
     lineageFull\<lparr>anyFemaleBefore1948 := True, anyNaturalizationInLine := True,
       naturalizedBeforeChildBirth := True\<rparr>"

definition applicantNoCity :: Applicant where
  "applicantNoCity = applicantFull\<lparr>city := []\<rparr>"

definition docsNoObito :: "UploadedDoc list" where
  "docsNoObito = [docNascimento, docCasamento, docNaturalizacao, docNegativa, docApostila, docTraducao]"

definition docsNoCasamentoObito :: "UploadedDoc list" where
  "docsNoCasamentoObito = [docNascimento, docNaturalizacao, docNegativa, docApostila, docTraducao]"

text \<open>
  The same files picked again: a new id, and a different size.
\<close>

definition docNascimentoCopy :: UploadedDoc where
  "docNascimentoCopy = docNascimento\<lparr>doc_id := ''c4d5e6''\<rparr>"

definition docCasamentoResized :: UploadedDoc where
  "docCasamentoResized =
     docCasamento\<lparr>doc_id := ''r2r2r2'', doc_file := (doc_file docCasamento)\<lparr>file_size := 1\<rparr>\<rparr>"

section \<open>File names and the two patterns\<close>

lemma char_eq_iff_code: "(a = b) \<longleftrightarrow> ((of_char a :: nat) = of_char b)"
  by (metis char_of_char)

lemma of_char_canonicalize:
  fixes n :: nat
  assumes "n = of_char x"
  shows "of_char (canonicalize x) = (if 97 \<le> n \<and> n \<le> 122 then n - 32 else n)"
proof -
  have "n < 256" using assms by (simp add: nat_of_char_less_256)
  then have "(n - 32) mod 256 = n - 32" by simp
  then show ?thesis using assms by (simp add: canonicalize_def Let_def of_char_of)
qed

lemma of_char_toLowerChar:
  fixes n :: nat
  assumes "n = of_char x"
  shows "of_char (toLowerChar x) =
     (if (65 \<le> n \<and> n \<le> 90) \<or> (192 \<le> n \<and> n \<le> 222 \<and> n \<noteq> 215) then n + 32 else n)"
proof -
  have "n \<le> 222 \<Longrightarrow> (n + 32) mod 256 = n + 32" by simp
  then show ?thesis using assms by (auto simp add: toLowerChar_def Let_def of_char_of)
qed

lemma canonicalize_pattern_char:
  assumes "c \<in> set ''.pdfngjewbi''"
  shows "(canonicalize x = canonicalize c) = (toLowerChar x = c)"
proof -
  define n :: nat where "n = of_char x"
  define m :: nat where "m = of_char c"
  have m: "m \<in> {46, 112, 100, 102, 110, 103, 106, 101, 119, 98, 105}"
    using assms unfolding m_def by auto
  have "(canonicalize x = canonicalize c)
      \<longleftrightarrow> (if 97 \<le> n \<and> n \<le> 122 then n - 32 else n) = (if 97 \<le> m \<and> m \<le> 122 then m - 32 else m)"
    unfolding char_eq_iff_code[of "canonicalize x"] of_char_canonicalize[OF n_def] of_char_canonicalize[OF m_def] ..
  moreover have "(toLowerChar x = c)
      \<longleftrightarrow> (if (65 \<le> n \<and> n \<le> 90) \<or> (192 \<le> n \<and> n \<le> 222 \<and> n \<noteq> 215) then n + 32 else n) = m"
    unfolding char_eq_iff_code[of "toLowerChar x"] of_char_toLowerChar[OF n_def] m_def ..
  moreover have "((if 97 \<le> n \<and> n \<le> 122 then n - 32 else n) = (if 97 \<le> m \<and> m \<le> 122 then m - 32 else m))
     \<longleftrightarrow> ((if (65 \<le> n \<and> n \<le> 90) \<or> (192 \<le> n \<and> n \<le> 222 \<and> n \<noteq> 215) then n + 32 else n) = m)"
    using m by auto
  ultimately show ?thesis by simp
qed

lemma regexTest_iff: "regexTest r s \<longleftrightarrow> (\<exists>t. suffix t s \<and> matches r t (\<lambda>t. True))"
  by (induction s) (auto simp: suffix_Cons)

lemma matches_Chr:
  assumes "c \<in> set ''.pdfngjewbi''"
  shows "matches (Chr c) s k \<longleftrightarrow> (\<exists>x xs. s = x # xs \<and> toLowerChar x = c \<and> k xs)"
  using canonicalize_pattern_char[OF assms] by (cases s) auto

lemma matches_lit:
  assumes "set w \<subseteq> set ''.pdfngjewbi''"
  shows "matches (lit w) s k \<longleftrightarrow> (\<exists>u t. s = u @ t \<and> toLowerCase u = w \<and> k t)"
  using assms
proof (induction w arbitrary: s k)
  case Nil
  then show ?case by (simp add: toLowerCase_def)
next
  case (Cons c w)
  then have c: "c \<in> set ''.pdfngjewbi''" and w: "set w \<subseteq> set ''.pdfngjewbi''" by auto
  show ?case
  proof
    assume "matches (lit (c # w)) s k"
    then obtain x xs where s: "s = x # xs" and x: "toLowerChar x = c" and m: "matches (lit w) xs k"
      by (auto simp: matches_Chr[OF c] simp del: matches.simps(2))
    from m obtain u t where "xs = u @ t" "toLowerCase u = w" "k t"
      using Cons.IH[OF w] by blast
    then have "s = (x # u) @ t \<and> toLowerCase (x # u) = c # w \<and> k t"
      using s x by (simp add: toLowerCase_def)
    then show "\<exists>u t. s = u @ t \<and> toLowerCase u = c # w \<and> k t" by blast
  next
    assume "\<exists>u t. s = u @ t \<and> toLowerCase u = c # w \<and> k t"
    then obtain u t where s: "s = u @ t" and u: "toLowerCase u = c # w" and k: "k t" by blast
    from u obtain x u' where u': "u = x # u'" "toLowerChar x = c" "toLowerCase u' = w"
      by (auto simp: toLowerCase_def)
    have "matches (lit w) (u' @ t) k" using Cons.IH[OF w] u'(3) k by blast
    then show "matches (lit (c # w)) s k"
      using s u' by (simp add: matches_Chr[OF c] del: matches.simps(2))
  qed
qed

lemma matches_lit_Eol:
  assumes "set w \<subseteq> set ''.pdfngjewbi''"
  shows "matches (Seq (lit w) Eol) s (\<lambda>t. True) \<longleftrightarrow> toLowerCase s = w"
  by (auto simp: matches_lit[OF assms])

lemma matches_pdfRx: "matches pdfRx s (\<lambda>t. True) \<longleftrightarrow> toLowerCase s = ''.pdf''"
proof -
  have "matches pdfRx s (\<lambda>t. True) = matches (Seq (lit ''.pdf'') Eol) s (\<lambda>t. True)"
    by (simp add: pdfRx_def del: matches.simps(2))
  then show ?thesis by (simp add: matches_lit_Eol del: matches.simps lit.simps)
qed

lemma matches_imageRx:
  "matches imageRx s (\<lambda>t. True) \<longleftrightarrow>
     toLowerCase s \<in> {''.png'', ''.jpg'', ''.jpeg'', ''.webp'', ''.gif''}"
proof -
  have e: "matches (Opt (Chr CHR ''e'')) t k = (matches (lit ''e'') t k \<or> matches (lit []) t k)" for t k
    by (simp del: matches.simps(2))
  have "matches imageRx s (\<lambda>t. True) \<longleftrightarrow>
      matches (Seq (lit ''.png'') Eol) s (\<lambda>t. True) \<or>
      matches (Seq (lit ''.jpg'') Eol) s (\<lambda>t. True) \<or>
      matches (Seq (lit ''.jpeg'') Eol) s (\<lambda>t. True) \<or>
      matches (Seq (lit ''.webp'') Eol) s (\<lambda>t. True) \<or>
      matches (Seq (lit ''.gif'') Eol) s (\<lambda>t. True)"
    by (auto simp add: imageRx_def split: list.splits)
  then show ?thesis by (simp add: matches_lit_Eol del: matches.simps lit.simps)
qed




lemma suffix_toLowerCase:
  "(\<exists>t. suffix t s \<and> toLowerCase t = w) \<longleftrightarrow> suffix w (toLowerCase s)"
  unfolding suffix_def toLowerCase_def
  by (auto simp: map_eq_append_conv) 

lemma isPDF_iff: "isPDF name \<longleftrightarrow> suffix ''.pdf'' (toLowerCase name)"
  unfolding isPDF_def regexTest_iff matches_pdfRx by (rule suffix_toLowerCase)

lemma isImage_iff:
  "isImage name \<longleftrightarrow> list_ex (\<lambda>ext. suffix ext (toLowerCase name)) [''.png'', ''.jpg'', ''.jpeg'', ''.webp'', ''.gif'']"
proof -
  have "isImage name \<longleftrightarrow>
      (\<exists>t. suffix t name \<and> toLowerCase t = ''.png'') \<or>
      (\<exists>t. suffix t name \<and> toLowerCase t = ''.jpg'') \<or>
      (\<exists>t. suffix t name \<and> toLowerCase t = ''.jpeg'') \<or>
      (\<exists>t. suffix t name \<and> toLowerCase t = ''.webp'') \<or>
      (\<exists>t. suffix t name \<and> toLowerCase t = ''.gif'')"
    unfolding isImage_def regexTest_iff matches_imageRx by blast
  then show ?thesis unfolding suffix_toLowerCase by simp
qed

lemma pdf_or_image_iff:
  "isPDF name \<or> isImage name \<longleftrightarrow> spec_recognizedExtension name"
  unfolding isPDF_iff isImage_iff spec_recognizedExtension_def spec_extensions_def by simp

lemma pdfOrImg_iff:
  "pdfOrImg docs \<longleftrightarrow> list_all (\<lambda>d. spec_recognizedExtension (file_name (doc_file d))) docs"
  unfolding pdfOrImg_def pdf_or_image_iff ..

section \<open>The sum of the contributions\<close>

lemma truthy_relationshipText: "truthy (relationshipText r)"
  by (cases r) (simp_all add: truthy_def)

lemma step_add: "(if c then s + k else s) = s + (if c then k else (0::int))"
  by simp

lemma step_sub: "(if c then s - k else s) = s - (if c then k else (0::int))"
  by simp

lemma scoreBeforeFormat_groups:
  "scoreBeforeFormat lineage docs applicant =
     applicantPoints applicant + lineagePoints lineage + documentPoints (types docs)
     - riskPoints lineage"
  unfolding scoreBeforeFormat_def Let_def applicantPoints_def lineagePoints_def
    documentPoints_def riskPoints_def step_add step_sub
  by linarith

lemma applicantPoints_bounds: "0 \<le> applicantPoints a \<and> applicantPoints a \<le> 16"
  by (simp add: applicantPoints_def)

lemma lineagePoints_bounds: "6 \<le> lineagePoints l \<and> lineagePoints l \<le> 22"
  by (simp add: lineagePoints_def truthy_relationshipText)

lemma documentPoints_bounds: "0 \<le> documentPoints ts \<and> documentPoints ts \<le> 50"
  by (simp add: documentPoints_def)

lemma riskPoints_bounds: "0 \<le> riskPoints l \<and> riskPoints l \<le> 41"
  by (simp add: riskPoints_def)

lemma scoreSum_bounds: "- 35 \<le> scoreSum l docs a \<and> scoreSum l docs a \<le> 94"
  using applicantPoints_bounds[of a] lineagePoints_bounds[of l]
    documentPoints_bounds[of "types docs"] riskPoints_bounds[of l]
  by (simp add: scoreSum_def scoreBeforeFormat_groups)

lemma types_append_Cons: "types (xs @ d # ys) = insert (inferredType d) (types (xs @ ys))"
  by (simp add: types_def)

lemma pdfOrImg_append_Cons:
  "pdfOrImg (xs @ d # ys) \<longleftrightarrow>
     (isPDF (file_name (doc_file d)) \<or> isImage (file_name (doc_file d))) \<and> pdfOrImg (xs @ ys)"
  by (auto simp: pdfOrImg_def)

lemma documentPoints_insert_nascimento:
  "known certidao_nascimento \<notin> ts \<Longrightarrow>
     documentPoints (insert (known certidao_nascimento) ts) = documentPoints ts + 10"
  by (simp add: documentPoints_def)

lemma types_without_naturalization:
  "types (filter (\<lambda>d. \<not> isNaturalizationDoc d) docs)
     = types docs - {known certidao_negativa_naturalizacao, known certidao_naturalizacao}"
  by (auto simp: types_def isNaturalizationDoc_def)

lemma documentPoints_naturalization:
  assumes "known certidao_negativa_naturalizacao \<in> ts \<or> known certidao_naturalizacao \<in> ts"
  shows "documentPoints ts =
     documentPoints (ts - {known certidao_negativa_naturalizacao, known certidao_naturalizacao}) + 12"
  using assms by (simp add: documentPoints_def)

lemma types_image: "types docs = inferredType ` set docs"
  by (simp add: types_def)

lemma pdfOrImg_set:
  "pdfOrImg docs \<longleftrightarrow>
     (\<forall>n \<in> (\<lambda>d. file_name (doc_file d)) ` set docs. isPDF n \<or> isImage n)"
  by (simp add: pdfOrImg_def list_all_iff)

lemma scoreQuality_cong:
  assumes "types docs' = types docs" and "pdfOrImg docs' = pdfOrImg docs"
  shows "scoreQuality l docs' a = scoreQuality l docs a"
  using assms
  by (simp add: scoreQuality_def scoreSum_def scoreBeforeFormat_groups keyFlags_def)

lemma list_all2_map_eq:
  "list_all2 (\<lambda>x y. f y = f x \<and> g y = g x) xs ys \<Longrightarrow> map f ys = map f xs \<and> map g ys = map g xs"
  by (induction xs ys rule: list_all2_induct) simp_all

section \<open>The sample inputs evaluated\<close>

lemmas sample_defs =
  docNascimento_def docNascimentoDocx_def docCasamento_def docObito_def docNaturalizacao_def
  docNegativa_def docApostila_def docTraducao_def upload_def

lemma sample_inferredType:
  "inferredType docNascimento = known certidao_nascimento"
  "inferredType docNascimentoDocx = known certidao_nascimento"
  "inferredType docCasamento = known certidao_casamento"
  "inferredType docObito = known certidao_obito"
  "inferredType docNaturalizacao = known certidao_naturalizacao"
  "inferredType docNegativa = known certidao_negativa_naturalizacao"
  "inferredType docApostila = known apostila_haya"
  "inferredType docTraducao = known traducao_juramentada"
  apply (simp_all add: sample_defs)
  apply code_simp+
  done

lemma sample_extension:
  "spec_recognizedExtension (file_name (doc_file docNascimento))"
  "\<not> spec_recognizedExtension (file_name (doc_file docNascimentoDocx))"
  "spec_recognizedExtension (file_name (doc_file docCasamento))"
  "spec_recognizedExtension (file_name (doc_file docObito))"
  "spec_recognizedExtension (file_name (doc_file docNaturalizacao))"
  "spec_recognizedExtension (file_name (doc_file docNegativa))"
  "spec_recognizedExtension (file_name (doc_file docApostila))"
  "spec_recognizedExtension (file_name (doc_file docTraducao))"
  apply (simp_all add: sample_defs)
  apply code_simp+
  done

lemmas score_eval =
  scoreQuality_def scoreSum_def scoreBeforeFormat_groups pdfOrImg_iff types_def
  applicantPoints_def lineagePoints_def documentPoints_def riskPoints_def
  labelOf_def keyFlags_def truthy_def truthyOpt_def
  sample_inferredType sample_extension

lemmas sample_inputs =
  docsAll_def docsNoObito_def docsNoCasamentoObito_def
  lineageDefault_def lineageFull_def lineageAllRisks_def lineageBlocked_def
  lineage80_def lineage60_def lineage40_def lineage39_def
  applicantEmpty_def applicantFull_def applicantNoCity_def

section \<open>The classifier\<close>

text \<open>
  The test for \<^verbatim>\<open>naturaliza\<close> alone (line 55) stands before the test for
  \<^verbatim>\<open>negativa\<close> together with \<^verbatim>\<open>naturaliza\<close> (line 56), so the second
  branch is never taken: no file name is classified as the negative certificate.
\<close>

lemma guessDocType_never_negativa:
  "guessDocType name \<noteq> known certidao_negativa_naturalizacao"
  by (simp add: guessDocType_def Let_def)

text \<open>
  Claim C1: a file name that holds both \<^verbatim>\<open>negativa\<close> and \<^verbatim>\<open>naturaliza\<close>, in any
  case, is classified as \<open>certidao_negativa_naturalizacao\<close> and never as
  \<open>certidao_naturalizacao\<close>. The classifier evaluated at such a name: both keywords
  occur in the lowered name, and the answer is \<open>certidao_naturalizacao\<close>.
\<close>

theorem guessDocType_negativa_naturaliza:
  "includesStr (toLowerCase ''Certidao_Negativa_Naturalizacao.pdf'') ''negativa''
   \<and> includesStr (toLowerCase ''Certidao_Negativa_Naturalizacao.pdf'') ''naturaliza''
   \<and> guessDocType ''Certidao_Negativa_Naturalizacao.pdf'' = known certidao_naturalizacao"
  by code_simp

section \<open>The score, the label and the flags\<close>

text \<open>
  Claim C2: for every applicant, lineage and document list the score of the result is an
  integer from 0 to 100, the clamp \<open>max 0 (min 100 sum)\<close> of the sum of the
  contributions; this holds with all penalties and no optional bonus, and with all
  bonuses and no penalty.
\<close>

theorem score_clamped:
  "0 \<le> score (scoreQuality l docs a) \<and> score (scoreQuality l docs a) \<le> 100
   \<and> score (scoreQuality l docs a) = max 0 (min 100 (scoreSum l docs a))"
  by (simp add: scoreQuality_def Let_def)

text \<open>
  The two extremes: every risk set on the empty form gives the sum -29 and the score 0;
  every field filled and every scored category present gives 94.
\<close>

theorem score_clamped_witness:
  "scoreSum lineageAllRisks [] applicantEmpty = - 29
   \<and> score (scoreQuality lineageAllRisks [] applicantEmpty) = 0
   \<and> scoreSum lineageFull docsAll applicantFull = 94
   \<and> score (scoreQuality lineageFull docsAll applicantFull) = 94"
proof -
  have low: "scoreSum lineageAllRisks [] applicantEmpty = - 29"
    by (simp add: score_eval sample_inputs)
  have high: "scoreSum lineageFull docsAll applicantFull = 94"
    by (simp add: score_eval sample_inputs)
  from score_clamped[of lineageAllRisks "[]" applicantEmpty]
    score_clamped[of lineageFull docsAll applicantFull] low high
  show ?thesis by simp
qed

text \<open>
  Claim C3: the label is read off the clamped score by the ladder 80, 60, 40 from the top,
  the first step reached giving the label; scores of exactly 80, 60, 40 and 39 give
  \<open>Excelente\<close>, \<open>Boa\<close>, \<open>Regular\<close> and \<open>Baixa\<close>.
\<close>

theorem label_ladder:
  "label (scoreQuality l docs a) =
     (if score (scoreQuality l docs a) \<ge> 80 then Excelente
      else if score (scoreQuality l docs a) \<ge> 60 then Boa
      else if score (scoreQuality l docs a) \<ge> 40 then Regular
      else Baixa)
   \<and> (score (scoreQuality l docs a) = 80 \<longrightarrow> label (scoreQuality l docs a) = Excelente)
   \<and> (score (scoreQuality l docs a) = 60 \<longrightarrow> label (scoreQuality l docs a) = Boa)
   \<and> (score (scoreQuality l docs a) = 40 \<longrightarrow> label (scoreQuality l docs a) = Regular)
   \<and> (score (scoreQuality l docs a) = 39 \<longrightarrow> label (scoreQuality l docs a) = Baixa)"
proof -
  define s where "s = score (scoreQuality l docs a)"
  have "label (scoreQuality l docs a) = labelOf s"
    by (simp add: s_def scoreQuality_def Let_def)
  then show ?thesis
    unfolding s_def[symmetric] by (simp add: labelOf_def)
qed

text \<open>
  Four inputs whose scores are exactly 80, 60, 40 and 39, with their labels.
\<close>

theorem label_ladder_witness:
  "score (scoreQuality lineage80 docsNoObito applicantFull) = 80
   \<and> label (scoreQuality lineage80 docsNoObito applicantFull) = Excelente
   \<and> score (scoreQuality lineage60 docsNoObito applicantNoCity) = 60
   \<and> label (scoreQuality lineage60 docsNoObito applicantNoCity) = Boa
   \<and> score (scoreQuality lineage40 docsAll applicantNoCity) = 40
   \<and> label (scoreQuality lineage40 docsAll applicantNoCity) = Regular
   \<and> score (scoreQuality lineage39 docsNoCasamentoObito applicantFull) = 39
   \<and> label (scoreQuality lineage39 docsNoCasamentoObito applicantFull) = Baixa"
proof -
  have s80: "score (scoreQuality lineage80 docsNoObito applicantFull) = 80"
    by (simp add: score_eval sample_inputs)
  have s60: "score (scoreQuality lineage60 docsNoObito applicantNoCity) = 60"
    by (simp add: score_eval sample_inputs)
  have s40: "score (scoreQuality lineage40 docsAll applicantNoCity) = 40"
    by (simp add: score_eval sample_inputs)
  have s39: "score (scoreQuality lineage39 docsNoCasamentoObito applicantFull) = 39"
    by (simp add: score_eval sample_inputs)
  from label_ladder[of lineage80 docsNoObito applicantFull]
    label_ladder[of lineage60 docsNoObito applicantNoCity]
    label_ladder[of lineage40 docsAll applicantNoCity]
    label_ladder[of lineage39 docsNoCasamentoObito applicantFull]
    s80 s60 s40 s39
  show ?thesis by simp
qed

text \<open>
  Claim C4: when no document has the category \<open>certidao_nascimento\<close>, adding one such
  document, all else equal, raises the score by exactly 10 unless it was 100 already.
  Two inputs where it does not: with the blocking naturalization set on the empty form the
  sum goes from -13 to -3 and the score stays 0; and a birth certificate named
  \<^verbatim>\<open>nascimento_pedro.docx\<close> gains the 10 points and loses the 6 points of the file
  format check, so the score goes from 12 to 16.
\<close>

theorem add_nascimento_counterexample:
  "known certidao_nascimento \<notin> types []
   \<and> inferredType docNascimento = known certidao_nascimento
   \<and> score (scoreQuality lineageBlocked [] applicantEmpty) = 0
   \<and> score (scoreQuality lineageBlocked ([] @ [docNascimento]) applicantEmpty) = 0
   \<and> score (scoreQuality lineageBlocked ([] @ [docNascimento]) applicantEmpty)
       \<noteq> score (scoreQuality lineageBlocked [] applicantEmpty) + 10
   \<and> inferredType docNascimentoDocx = known certidao_nascimento
   \<and> score (scoreQuality lineageDefault [] applicantEmpty) = 12
   \<and> score (scoreQuality lineageDefault ([] @ [docNascimentoDocx]) applicantEmpty) = 16
   \<and> score (scoreQuality lineageDefault ([] @ [docNascimentoDocx]) applicantEmpty)
       \<noteq> score (scoreQuality lineageDefault [] applicantEmpty) + 10"
  by (simp add: score_eval sample_inputs)

text \<open>
  Claim C4 as the code has it: when no document has the category
  \<open>certidao_nascimento\<close>, adding one such document at any place of the list, whose file
  name passes the file format check (or when some listed file already fails it), raises
  the sum by exactly 10, and the sum stays at most 94. The score rises by exactly 10 when
  the sum before was at least 0; in every case it does not fall and rises by at most 10.
  When the sum before was below 0 the score before was 0, the score after is the new sum
  where that is positive and 0 otherwise, and so the score rises by less than 10.
\<close>

theorem add_nascimento:
  assumes "known certidao_nascimento \<notin> types (xs @ ys)"
    and "inferredType d = known certidao_nascimento"
    and "isPDF (file_name (doc_file d)) \<or> isImage (file_name (doc_file d)) \<or> \<not> pdfOrImg (xs @ ys)"
  shows "scoreSum l (xs @ d # ys) a = scoreSum l (xs @ ys) a + 10
    \<and> scoreSum l (xs @ d # ys) a \<le> 94
    \<and> (0 \<le> scoreSum l (xs @ ys) a \<longrightarrow>
         score (scoreQuality l (xs @ d # ys) a) = score (scoreQuality l (xs @ ys) a) + 10)
    \<and> score (scoreQuality l (xs @ ys) a) \<le> score (scoreQuality l (xs @ d # ys) a)
    \<and> score (scoreQuality l (xs @ d # ys) a) \<le> score (scoreQuality l (xs @ ys) a) + 10
    \<and> (scoreSum l (xs @ ys) a < 0 \<longrightarrow>
         score (scoreQuality l (xs @ ys) a) = 0
         \<and> score (scoreQuality l (xs @ d # ys) a) = max 0 (scoreSum l (xs @ ys) a + 10)
         \<and> score (scoreQuality l (xs @ d # ys) a) < score (scoreQuality l (xs @ ys) a) + 10)"
proof -
  have f: "pdfOrImg (xs @ d # ys) = pdfOrImg (xs @ ys)"
    using assms(3) by (auto simp: pdfOrImg_append_Cons)
  have sum: "scoreSum l (xs @ d # ys) a = scoreSum l (xs @ ys) a + 10"
    using assms(1,2) f
    by (simp add: scoreSum_def scoreBeforeFormat_groups types_append_Cons
        documentPoints_insert_nascimento)
  have top: "scoreSum l (xs @ d # ys) a \<le> 94"
    by (simp add: scoreSum_bounds)
  show ?thesis
    using sum top by (simp add: scoreQuality_def Let_def)
qed

text \<open>
  On the default form with a marriage and a death certificate: from 26 to 36. With the
  blocking naturalization and a marriage certificate the sum goes from -5 to 5 and the
  score from 0 to 5.
\<close>

theorem add_nascimento_witness:
  "known certidao_nascimento \<notin> types ([docCasamento] @ [docObito])
   \<and> inferredType docNascimento = known certidao_nascimento
   \<and> isPDF (file_name (doc_file docNascimento))
   \<and> 0 \<le> scoreSum lineageDefault ([docCasamento] @ [docObito]) applicantEmpty
   \<and> score (scoreQuality lineageDefault ([docCasamento] @ [docObito]) applicantEmpty) = 26
   \<and> score (scoreQuality lineageDefault ([docCasamento] @ docNascimento # [docObito]) applicantEmpty) = 36
   \<and> known certidao_nascimento \<notin> types ([docCasamento] @ [])
   \<and> scoreSum lineageBlocked ([docCasamento] @ []) applicantEmpty = - 5
   \<and> score (scoreQuality lineageBlocked ([docCasamento] @ []) applicantEmpty) = 0
   \<and> score (scoreQuality lineageBlocked ([docCasamento] @ docNascimento # []) applicantEmpty) = 5"
proof -
  have h1: "known certidao_nascimento \<notin> types ([docCasamento] @ [docObito])"
    by (simp add: types_def sample_inferredType)
  have h2: "inferredType docNascimento = known certidao_nascimento"
    by (simp add: sample_inferredType)
  have h3: "isPDF (file_name (doc_file docNascimento))"
    unfolding isPDF_iff by (simp add: docNascimento_def upload_def) code_simp
  have s: "scoreSum lineageDefault ([docCasamento] @ [docObito]) applicantEmpty = 26"
    by (simp add: score_eval sample_inputs)
  have q: "score (scoreQuality lineageDefault ([docCasamento] @ [docObito]) applicantEmpty) = 26"
    by (simp add: score_eval sample_inputs)
  have g1: "known certidao_nascimento \<notin> types ([docCasamento] @ [])"
    by (simp add: types_def sample_inferredType)
  have t: "scoreSum lineageBlocked ([docCasamento] @ []) applicantEmpty = - 5"
    by (simp add: score_eval sample_inputs)
  from add_nascimento[OF h1 h2 disjI1[OF h3], of lineageDefault applicantEmpty]
    add_nascimento[OF g1 h2 disjI1[OF h3], of lineageBlocked applicantEmpty]
    h1 h2 h3 s q g1 t
  show ?thesis by simp
qed

text \<open>
  Claim C5: with every applicant field empty, the lineage at its defaults but for
  \<open>naturalizedBeforeChildBirth\<close> set, and no document, the sum is negative (-13), the
  score is 0, the label is \<open>Baixa\<close>, and the flags are the missing birth
  certificate, the missing marriage certificate, the missing proof of naturalization and
  the blocking naturalization, in this order. The phone and the birth place are any
  values; the birth year is the empty string of the form, or undefined.
\<close>

theorem blocked_empty_evaluation:
  "scoreQuality
     \<lparr>italianAncestorName = [], italianAncestorBirthYear = Some [],
      italianAncestorBirthPlace = bp, relationshipToYou = bisavo,
      anyFemaleBefore1948 = False, anyNaturalizationInLine = False,
      naturalizedBeforeChildBirth = True\<rparr>
     []
     \<lparr>fullName = [], email = [], phone = p, country = [], city = []\<rparr>
   = \<lparr>score = 0, label = Baixa,
      flags = [FaltaNascimento, FaltaCasamento, FaltaNaturalizacao, NaturalizacaoImpeditiva]\<rparr>
   \<and> scoreQuality
     \<lparr>italianAncestorName = [], italianAncestorBirthYear = None,
      italianAncestorBirthPlace = bp, relationshipToYou = bisavo,
      anyFemaleBefore1948 = False, anyNaturalizationInLine = False,
      naturalizedBeforeChildBirth = True\<rparr>
     []
     \<lparr>fullName = [], email = [], phone = p, country = [], city = []\<rparr>
   = \<lparr>score = 0, label = Baixa,
      flags = [FaltaNascimento, FaltaCasamento, FaltaNaturalizacao, NaturalizacaoImpeditiva]\<rparr>
   \<and> scoreSum
     \<lparr>italianAncestorName = [], italianAncestorBirthYear = Some [],
      italianAncestorBirthPlace = bp, relationshipToYou = bisavo,
      anyFemaleBefore1948 = False, anyNaturalizationInLine = False,
      naturalizedBeforeChildBirth = True\<rparr>
     []
     \<lparr>fullName = [], email = [], phone = p, country = [], city = []\<rparr> = - 13"
  by (simp add: scoreQuality_def scoreSum_def scoreBeforeFormat_groups pdfOrImg_def types_def
      applicantPoints_def lineagePoints_def documentPoints_def riskPoints_def
      labelOf_def keyFlags_def truthy_def truthyOpt_def)

text \<open>
  Claim C6: when a document of the category \<open>certidao_negativa_naturalizacao\<close> or
  \<open>certidao_naturalizacao\<close> is present, exactly 12 points are added for it, once, also
  when both categories are present. Stated against the same list without the documents of
  these two categories: the accumulator before the file format step is 12 higher, and so
  is the sum when the file format check gives the same answer on both lists. The score
  returned is that sum with the 12 points, held at the floor 0; it is exactly 12 above the
  score of the list without these documents when the sum of that list is at least 0.
\<close>

theorem naturalization_points_once:
  assumes "known certidao_negativa_naturalizacao \<in> types docs
     \<or> known certidao_naturalizacao \<in> types docs"
  shows "scoreBeforeFormat l docs a =
       scoreBeforeFormat l (filter (\<lambda>d. \<not> isNaturalizationDoc d) docs) a + 12
     \<and> (pdfOrImg (filter (\<lambda>d. \<not> isNaturalizationDoc d) docs) = pdfOrImg docs \<longrightarrow>
          scoreSum l docs a = scoreSum l (filter (\<lambda>d. \<not> isNaturalizationDoc d) docs) a + 12)
     \<and> score (scoreQuality l docs a) =
          max 0 (scoreBeforeFormat l (filter (\<lambda>d. \<not> isNaturalizationDoc d) docs) a + 12
                 + (if pdfOrImg docs then 6 else 0))
     \<and> (pdfOrImg (filter (\<lambda>d. \<not> isNaturalizationDoc d) docs) = pdfOrImg docs \<longrightarrow>
          score (scoreQuality l docs a) =
            max 0 (scoreSum l (filter (\<lambda>d. \<not> isNaturalizationDoc d) docs) a + 12))
     \<and> (pdfOrImg (filter (\<lambda>d. \<not> isNaturalizationDoc d) docs) = pdfOrImg docs
          \<and> 0 \<le> scoreSum l (filter (\<lambda>d. \<not> isNaturalizationDoc d) docs) a \<longrightarrow>
          score (scoreQuality l docs a) =
            score (scoreQuality l (filter (\<lambda>d. \<not> isNaturalizationDoc d) docs) a) + 12)"
proof -
  let ?rest = "filter (\<lambda>d. \<not> isNaturalizationDoc d) docs"
  have before: "scoreBeforeFormat l docs a = scoreBeforeFormat l ?rest a + 12"
    using documentPoints_naturalization[OF assms]
    by (simp add: scoreBeforeFormat_groups types_without_naturalization)
  have top: "scoreSum l docs a \<le> 94"
    by (simp add: scoreSum_bounds)
  have q: "score (scoreQuality l docs a) = max 0 (scoreSum l docs a)"
    using top by (simp add: scoreQuality_def Let_def)
  have q': "0 \<le> scoreSum l ?rest a \<Longrightarrow> score (scoreQuality l ?rest a) = scoreSum l ?rest a"
    using scoreSum_bounds[of l ?rest a] by (simp add: scoreQuality_def Let_def)
  have sum: "scoreSum l docs a = scoreBeforeFormat l ?rest a + 12 + (if pdfOrImg docs then 6 else 0)"
    using before by (simp add: scoreSum_def)
  have same: "pdfOrImg ?rest = pdfOrImg docs \<Longrightarrow> scoreSum l docs a = scoreSum l ?rest a + 12"
    using before by (simp add: scoreSum_def)
  have c3: "score (scoreQuality l docs a) =
      max 0 (scoreBeforeFormat l ?rest a + 12 + (if pdfOrImg docs then 6 else 0))"
    by (simp only: q sum)
  have c4: "score (scoreQuality l docs a) = max 0 (scoreSum l ?rest a + 12)"
    if "pdfOrImg ?rest = pdfOrImg docs"
    by (simp only: q same[OF that])
  have c5: "score (scoreQuality l docs a) = score (scoreQuality l ?rest a) + 12"
    if "pdfOrImg ?rest = pdfOrImg docs \<and> 0 \<le> scoreSum l ?rest a"
    using that c4 q' by simp
  from before same c3 c4 c5 show ?thesis by blast
qed

text \<open>
  With both categories present: 94 against 82 without them. Below the floor, with every
  risk set on the empty form and one naturalization certificate: the sum is -17 against
  -29, and the score is 0.
\<close>

theorem naturalization_points_once_witness:
  "(known certidao_negativa_naturalizacao \<in> types docsAll
     \<and> known certidao_naturalizacao \<in> types docsAll)
   \<and> filter (\<lambda>d. \<not> isNaturalizationDoc d) docsAll
       = [docNascimento, docCasamento, docObito, docApostila, docTraducao]
   \<and> scoreSum lineageFull [docNascimento, docCasamento, docObito, docApostila, docTraducao]
        applicantFull = 82
   \<and> scoreSum lineageFull docsAll applicantFull = 94
   \<and> score (scoreQuality lineageFull
        [docNascimento, docCasamento, docObito, docApostila, docTraducao] applicantFull) = 82
   \<and> score (scoreQuality lineageFull docsAll applicantFull) = 94
   \<and> known certidao_naturalizacao \<in> types [docNaturalizacao]
   \<and> filter (\<lambda>d. \<not> isNaturalizationDoc d) [docNaturalizacao] = []
   \<and> scoreSum lineageAllRisks [] applicantEmpty = - 29
   \<and> score (scoreQuality lineageAllRisks [docNaturalizacao] applicantEmpty) = 0"
proof -
  have h: "known certidao_negativa_naturalizacao \<in> types docsAll
     \<and> known certidao_naturalizacao \<in> types docsAll"
    by (simp add: types_def docsAll_def sample_inferredType)
  have f: "filter (\<lambda>d. \<not> isNaturalizationDoc d) docsAll
       = [docNascimento, docCasamento, docObito, docApostila, docTraducao]"
    by (simp add: docsAll_def isNaturalizationDoc_def sample_inferredType)
  have p: "pdfOrImg [docNascimento, docCasamento, docObito, docApostila, docTraducao]
       = pdfOrImg docsAll"
    by (simp add: pdfOrImg_iff docsAll_def sample_extension)
  have s: "scoreSum lineageFull [docNascimento, docCasamento, docObito, docApostila, docTraducao]
        applicantFull = 82"
    by (simp add: score_eval sample_inputs)
  have h': "known certidao_naturalizacao \<in> types [docNaturalizacao]"
    by (simp add: types_def sample_inferredType)
  have f': "filter (\<lambda>d. \<not> isNaturalizationDoc d) [docNaturalizacao] = []"
    by (simp add: isNaturalizationDoc_def sample_inferredType)
  have p': "pdfOrImg [] = pdfOrImg [docNaturalizacao]"
    by (simp add: pdfOrImg_iff sample_extension)
  have s': "scoreSum lineageAllRisks [] applicantEmpty = - 29"
    by (simp add: score_eval sample_inputs)
  from naturalization_points_once[of docsAll lineageFull applicantFull]
    naturalization_points_once[of "[docNaturalizacao]" lineageAllRisks applicantEmpty]
    h f p s h' f' p' s'
  show ?thesis by simp
qed

text \<open>
  Claim C7: the file format step adds exactly 6 points when every document's file name
  ends in one of \<^verbatim>\<open>.pdf .png .jpg .jpeg .webp .gif\<close>, in any case of the letters, and
  nothing otherwise; with no document the 6 points are added. The score returned is the
  accumulator before this step with these points, held at the floor 0; of two lists with
  the same categories, one with every name recognised and one not, the first scores
  exactly 6 more when the accumulator is at least 0.
\<close>

theorem format_sanity_points:
  "scoreSum l docs a = scoreBeforeFormat l docs a
       + (if list_all (\<lambda>d. spec_recognizedExtension (file_name (doc_file d))) docs then 6 else 0)
   \<and> scoreSum l [] a = scoreBeforeFormat l [] a + 6
   \<and> score (scoreQuality l docs a) =
        max 0 (scoreBeforeFormat l docs a
          + (if list_all (\<lambda>d. spec_recognizedExtension (file_name (doc_file d))) docs
             then 6 else 0))
   \<and> score (scoreQuality l [] a) = max 0 (scoreBeforeFormat l [] a + 6)
   \<and> (types docs' = types docs
        \<and> list_all (\<lambda>d. spec_recognizedExtension (file_name (doc_file d))) docs
        \<and> \<not> list_all (\<lambda>d. spec_recognizedExtension (file_name (doc_file d))) docs'
        \<and> 0 \<le> scoreBeforeFormat l docs a \<longrightarrow>
        score (scoreQuality l docs a) = score (scoreQuality l docs' a) + 6)"
proof -
  have sum: "scoreSum l ds a = scoreBeforeFormat l ds a
       + (if list_all (\<lambda>d. spec_recognizedExtension (file_name (doc_file d))) ds then 6 else 0)"
    for ds
    by (simp add: scoreSum_def pdfOrImg_iff)
  have q: "score (scoreQuality l ds a) = max 0 (scoreSum l ds a)" for ds
    using scoreSum_bounds[of l ds a] by (simp add: scoreQuality_def Let_def)
  have same: "types docs' = types docs \<Longrightarrow>
      scoreBeforeFormat l docs' a = scoreBeforeFormat l docs a"
    by (simp add: scoreBeforeFormat_groups)
  show ?thesis
    using sum[of docs] sum[of docs'] sum[of "[]"] q[of docs] q[of docs'] q[of "[]"] same
    by (simp split: if_splits)
qed

text \<open>
  Two recognised names give the 6 points, a \<^verbatim>\<open>.docx\<close> name among them gives none,
  and the empty list gives them: the scores are 30, 24 and 12.
\<close>

theorem format_sanity_points_witness:
  "scoreSum lineageDefault [docNascimento, docCasamento] applicantEmpty
     = scoreBeforeFormat lineageDefault [docNascimento, docCasamento] applicantEmpty + 6
   \<and> scoreSum lineageDefault [docNascimentoDocx, docCasamento] applicantEmpty
     = scoreBeforeFormat lineageDefault [docNascimentoDocx, docCasamento] applicantEmpty
   \<and> scoreSum lineageDefault [] applicantEmpty = 12
   \<and> types [docNascimentoDocx, docCasamento] = types [docNascimento, docCasamento]
   \<and> score (scoreQuality lineageDefault [docNascimento, docCasamento] applicantEmpty) = 30
   \<and> score (scoreQuality lineageDefault [docNascimentoDocx, docCasamento] applicantEmpty) = 24
   \<and> score (scoreQuality lineageDefault [] applicantEmpty) = 12"
proof -
  have e: "scoreBeforeFormat lineageDefault [] applicantEmpty = 6"
    by (simp add: score_eval sample_inputs)
  have b: "scoreBeforeFormat lineageDefault [docNascimento, docCasamento] applicantEmpty = 24"
    by (simp add: score_eval sample_inputs)
  have t: "types [docNascimentoDocx, docCasamento] = types [docNascimento, docCasamento]"
    by (simp add: types_def sample_inferredType)
  from format_sanity_points[of lineageDefault "[docNascimento, docCasamento]" applicantEmpty
      "[docNascimentoDocx, docCasamento]"]
    format_sanity_points[of lineageDefault "[docNascimentoDocx, docCasamento]" applicantEmpty
      "[docNascimentoDocx, docCasamento]"]
    format_sanity_points[of lineageDefault "[]" applicantEmpty "[]"] e b t
  show ?thesis by (simp add: sample_extension)
qed

text \<open>
  Claim C8: two document lists that are permutations of each other, or of which one is the
  other with a copy added of a document already there (the same file name and the same
  category), get the same result; the category tests see only the set of the categories.
\<close>

theorem order_and_duplicates_irrelevant:
  "(mset docs' = mset docs \<longrightarrow> scoreQuality l docs' a = scoreQuality l docs a)
   \<and> (e \<in> set (xs @ ys) \<and> file_name (doc_file d) = file_name (doc_file e)
        \<and> inferredType d = inferredType e \<longrightarrow>
        scoreQuality l (xs @ d # ys) a = scoreQuality l (xs @ ys) a)
   \<and> (types docs' = types docs \<longrightarrow>
        scoreBeforeFormat l docs' a = scoreBeforeFormat l docs a
        \<and> keyFlags l docs' = keyFlags l docs)"
proof (intro conjI impI)
  assume "mset docs' = mset docs"
  then have "set docs' = set docs" by (rule mset_eq_setD)
  then show "scoreQuality l docs' a = scoreQuality l docs a"
    by (intro scoreQuality_cong) (simp_all add: types_image pdfOrImg_set)
next
  assume h: "e \<in> set (xs @ ys) \<and> file_name (doc_file d) = file_name (doc_file e)
        \<and> inferredType d = inferredType e"
  then have t: "types (xs @ d # ys) = types (xs @ ys)"
    by (auto simp: types_image)
  have p: "pdfOrImg (xs @ d # ys) = pdfOrImg (xs @ ys)"
    using h by (auto simp: pdfOrImg_set)
  show "scoreQuality l (xs @ d # ys) a = scoreQuality l (xs @ ys) a"
    using t p by (rule scoreQuality_cong)
next
  assume "types docs' = types docs"
  then show "scoreBeforeFormat l docs' a = scoreBeforeFormat l docs a"
    by (simp add: scoreBeforeFormat_groups)
next
  assume "types docs' = types docs"
  then show "keyFlags l docs' = keyFlags l docs"
    by (simp add: keyFlags_def)
qed

text \<open>
  Two documents swapped; a birth certificate picked a second time under a new id; and two
  lists with the same categories.
\<close>

theorem order_and_duplicates_irrelevant_witness:
  "mset [docCasamento, docNascimento] = mset [docNascimento, docCasamento]
   \<and> scoreQuality lineageDefault [docCasamento, docNascimento] applicantEmpty
       = scoreQuality lineageDefault [docNascimento, docCasamento] applicantEmpty
   \<and> docNascimento \<in> set ([docNascimento] @ [docCasamento])
   \<and> file_name (doc_file docNascimentoCopy) = file_name (doc_file docNascimento)
   \<and> inferredType docNascimentoCopy = inferredType docNascimento
   \<and> docNascimentoCopy \<noteq> docNascimento
   \<and> scoreQuality lineageDefault ([docNascimento] @ docNascimentoCopy # [docCasamento]) applicantEmpty
       = scoreQuality lineageDefault ([docNascimento] @ [docCasamento]) applicantEmpty
   \<and> types [docNascimentoDocx] = types [docNascimento]
   \<and> keyFlags lineageDefault [docNascimentoDocx] = keyFlags lineageDefault [docNascimento]"
proof -
  have m: "mset [docCasamento, docNascimento] = mset [docNascimento, docCasamento]"
    by (simp add: add_mset_commute)
  have c: "file_name (doc_file docNascimentoCopy) = file_name (doc_file docNascimento)
     \<and> inferredType docNascimentoCopy = inferredType docNascimento
     \<and> docNascimentoCopy \<noteq> docNascimento"
    by (simp add: docNascimentoCopy_def docNascimento_def upload_def)
  have t: "types [docNascimentoDocx] = types [docNascimento]"
    by (simp add: types_def sample_inferredType)
  from order_and_duplicates_irrelevant[of "[docCasamento, docNascimento]"
      "[docNascimento, docCasamento]" lineageDefault applicantEmpty
      docNascimento "[docNascimento]" "[docCasamento]" docNascimentoCopy]
    order_and_duplicates_irrelevant[of "[docNascimentoDocx]" "[docNascimento]"
      lineageDefault applicantEmpty docNascimento "[docNascimento]" "[]" docNascimento]
    m c t
  show ?thesis by simp
qed

text \<open>
  Claim C9: the score is at most 94, the total of all positive contributions, so the
  upper clamp at 100 never applies and no score from 95 to 100 is returned.
\<close>

theorem score_at_most_94:
  "scoreSum l docs a \<le> 94
   \<and> score (scoreQuality l docs a) \<le> 94
   \<and> score (scoreQuality l docs a) = max 0 (scoreSum l docs a)"
  using scoreSum_bounds[of l docs a] by (simp add: scoreQuality_def Let_def)

text \<open>
  The bound is reached: every field filled and every scored category present.
\<close>

theorem score_at_most_94_witness:
  "scoreSum lineageFull docsAll applicantFull = 94
   \<and> score (scoreQuality lineageFull docsAll applicantFull) = 94"
proof -
  have "scoreSum lineageFull docsAll applicantFull = 94"
    by (simp add: score_eval sample_inputs)
  with score_at_most_94[of lineageFull docsAll applicantFull] show ?thesis by simp
qed

text \<open>
  Claim C10: the applicant's phone, the ancestor's birth place, the ids of the documents
  and the sizes of their files have no influence on the result: two inputs that agree on
  every other field, the documents one by one on file name and category, get the same
  score, label and flags.
\<close>

theorem ignored_fields:
  assumes "list_all2 (\<lambda>d d'. file_name (doc_file d') = file_name (doc_file d)
      \<and> inferredType d' = inferredType d) docs docs'"
  shows "scoreQuality (l\<lparr>italianAncestorBirthPlace := bp\<rparr>) docs' (a\<lparr>phone := p\<rparr>)
     = scoreQuality l docs a"
proof -
  from list_all2_map_eq[OF assms]
  have n: "map (\<lambda>d. file_name (doc_file d)) docs' = map (\<lambda>d. file_name (doc_file d)) docs"
    and t: "map inferredType docs' = map inferredType docs" by simp_all
  have ts: "types docs' = types docs"
    using t by (simp add: types_def)
  have "(\<lambda>d. file_name (doc_file d)) ` set docs' = (\<lambda>d. file_name (doc_file d)) ` set docs"
    using arg_cong[OF n, of set] by simp
  then have ps: "pdfOrImg docs' = pdfOrImg docs"
    by (simp add: pdfOrImg_set)
  have ap: "applicantPoints (a\<lparr>phone := p\<rparr>) = applicantPoints a"
    by (simp add: applicantPoints_def)
  have lp: "lineagePoints (l\<lparr>italianAncestorBirthPlace := bp\<rparr>) = lineagePoints l"
    by (simp add: lineagePoints_def)
  have rp: "riskPoints (l\<lparr>italianAncestorBirthPlace := bp\<rparr>) = riskPoints l"
    by (simp add: riskPoints_def)
  have kf: "keyFlags (l\<lparr>italianAncestorBirthPlace := bp\<rparr>) docs = keyFlags l docs"
    by (simp add: keyFlags_def)
  have "scoreQuality (l\<lparr>italianAncestorBirthPlace := bp\<rparr>) docs (a\<lparr>phone := p\<rparr>)
      = scoreQuality l docs a"
    by (simp only: scoreQuality_def scoreSum_def scoreBeforeFormat_groups ap lp rp kf)
  then show ?thesis
    by (simp only: scoreQuality_cong[OF ts ps])
qed

text \<open>
  Another phone, another birth place, a new id and another file size.
\<close>

theorem ignored_fields_witness:
  "list_all2 (\<lambda>d d'. file_name (doc_file d') = file_name (doc_file d)
      \<and> inferredType d' = inferredType d)
     [docNascimento, docCasamento] [docNascimentoCopy, docCasamentoResized]
   \<and> [docNascimento, docCasamento] \<noteq> [docNascimentoCopy, docCasamentoResized]
   \<and> scoreQuality (lineageFull\<lparr>italianAncestorBirthPlace := Some ''Treviso''\<rparr>)
        [docNascimentoCopy, docCasamentoResized] (applicantFull\<lparr>phone := Some ''+55 19 5550 0100''\<rparr>)
     = scoreQuality lineageFull [docNascimento, docCasamento] applicantFull"
proof -
  have h: "list_all2 (\<lambda>d d'. file_name (doc_file d') = file_name (doc_file d)
      \<and> inferredType d' = inferredType d)
     [docNascimento, docCasamento] [docNascimentoCopy, docCasamentoResized]"
    by (simp add: docNascimentoCopy_def docCasamentoResized_def)
  have d: "[docNascimento, docCasamento] \<noteq> [docNascimentoCopy, docCasamentoResized]"
    by (simp add: docNascimentoCopy_def docNascimento_def upload_def)
  from ignored_fields[OF h, where l = lineageFull and bp = "Some ''Treviso''"
      and a = applicantFull and p = "Some ''+55 19 5550 0100''"] h d
  show ?thesis by simp
qed

end
